theory Spec2Isabelle
  imports Main "HOL-Library.AList" "HOL-Library.Sublist"
begin

section \<open>Values of the JavaScript run time\<close>

text \<open>
  The handlers of \<^verbatim>\<open>server.js\<close> read a request body that the JSON body parser has
  produced, so every value they touch is a JSON value. A number is carried as the text
  that JavaScript's number-to-string conversion gives for it: the handlers only ever
  test a number for truthiness and splice it into a message. An object is the list of
  its own properties; \<open>map_of\<close> reads a property.
\<close>

datatype json =
    JNull
  | JBool bool
  | JNum string
  | JStr string
  | JArr "json list"
  | JObj "(string \<times> json) list"

type_synonym obj = "(string \<times> json) list"

text \<open>
  The body parser runs in its strict mode (the default of \<^verbatim>\<open>bodyParser.json()\<close>): the
  body a handler sees is an object or an array, and \<open>{}\<close> when the request has none.
\<close>

datatype body = BodyObj obj | BodyArr "json list"

text \<open>
  \<^verbatim>\<open>field in req.body\<close> and \<^verbatim>\<open>req.body[field]\<close>, for the property names the handlers
  use (\<open>id\<close>, \<open>name\<close>, \<open>borough\<close>, \<open>cuisine\<close>, \<open>address\<close>, \<open>grades\<close>): none of them is
  a property of an array or of the object prototype, so only an object's own properties
  count. \<open>None\<close> is JavaScript's \<open>undefined\<close>.
\<close>

fun get_prop :: "body \<Rightarrow> string \<Rightarrow> json option" where
  "get_prop (BodyObj kvs) k = map_of kvs k"
| "get_prop (BodyArr xs) k = None"

definition js_in :: "string \<Rightarrow> body \<Rightarrow> bool" where
  "js_in field b = (get_prop b field \<noteq> None)"

text \<open>Truthiness, as \<^verbatim>\<open>&&\<close> tests it. The number zero prints as \<open>0\<close>.\<close>

fun truthy :: "json \<Rightarrow> bool" where
  "truthy JNull = False"
| "truthy (JBool b) = b"
| "truthy (JNum n) = (n \<noteq> ''0'')"
| "truthy (JStr s) = (s \<noteq> [])"
| "truthy (JArr xs) = True"
| "truthy (JObj kvs) = True"

text \<open>
  The conversion to a string that \<^verbatim>\<open>+\<close> applies to an operand. An array joins the
  conversions of its elements with commas, \<open>null\<close> giving the empty string. An object
  is converted by its \<open>toString\<close> method: the inherited one gives \<open>[object Object]\<close>,
  but an own property \<open>toString\<close> of a parsed body is never a function, and then the
  conversion throws a \<open>TypeError\<close> (the result \<open>None\<close>).
\<close>

fun join :: "string list \<Rightarrow> string" where
  "join [] = []"
| "join [s] = s"
| "join (s # t # ss) = s @ '','' @ join (t # ss)"

fun to_str :: "json \<Rightarrow> string option" where
  "to_str JNull = Some ''null''"
| "to_str (JBool b) = Some (if b then ''true'' else ''false'')"
| "to_str (JNum n) = Some n"
| "to_str (JStr s) = Some s"
| "to_str (JArr xs) =
     map_option join (those (map (\<lambda>x. if x = JNull then Some [] else to_str x) xs))"
| "to_str (JObj kvs) =
     (if map_of kvs ''toString'' = None then Some ''[object Object]'' else None)"

definition concat_operand :: "json option \<Rightarrow> string option" where
  "concat_operand v = (case v of None \<Rightarrow> Some ''undefined'' | Some x \<Rightarrow> to_str x)"

section \<open>Failures, promises and what a handler does\<close>

datatype failure =
    StoreError string
  | SocketError string
  | TypeError string

datatype 'a promise = Resolved 'a | Rejected failure

datatype call =
    Find nat
  | FindById string
  | Create obj
  | FindByIdAndUpdate string obj
  | FindByIdAndRemove string

datatype payload = Json json | Text string | Empty

text \<open>
  A handler's observable actions, in the order it performs them: a line on the server's
  error log (a message, or an error object), a call of the store, and a write of a
  response. The client receives the first response written; a later write on the same
  response object is attempted and reaches nobody.
\<close>

datatype event =
    ConsoleError string
  | ConsoleErrorObj failure
  | StoreCall call
  | Respond nat payload

record result =
  trace :: "event list"
  store :: "obj list"
  uncaught :: "failure option"

fun responses :: "event list \<Rightarrow> (nat \<times> payload) list" where
  "responses [] = []"
| "responses (Respond s p # evs) = (s, p) # responses evs"
| "responses (ev # evs) = responses evs"

fun store_calls :: "event list \<Rightarrow> call list" where
  "store_calls [] = []"
| "store_calls (StoreCall c # evs) = c # store_calls evs"
| "store_calls (ev # evs) = store_calls evs"

definition client_response :: "event list \<Rightarrow> (nat \<times> payload) option" where
  "client_response evs = (case responses evs of [] \<Rightarrow> None | r # rs \<Rightarrow> Some r)"

text \<open>
  \<^verbatim>\<open>promise.then(on_ok).catch(on_err)\<close>: the second callback receives a rejection of
  the promise and also whatever the first callback throws.
\<close>

definition then_catch ::
  "'a promise \<Rightarrow> ('a \<Rightarrow> failure + event list) \<Rightarrow> (failure \<Rightarrow> event list) \<Rightarrow> event list" where
  "then_catch p on_ok on_err =
     (case p of
        Rejected e \<Rightarrow> on_err e
      | Resolved v \<Rightarrow> (case on_ok v of Inl e \<Rightarrow> on_err e | Inr evs \<Rightarrow> evs))"

section \<open>The document store\<close>

text \<open>
  The collection of restaurant documents, in the store's order. A document is an object
  whose property \<open>_id\<close> holds its identifier.

  The store client is an external collaborator. What it does beyond the collection is an
  input of the model: \<open>fault\<close> is the rejection the driver answers the request's store
  call with, if it rejects it (a lost connection, a failed query, an identifier or a value
  that it cannot cast), and \<open>new_id\<close> is the identifier it assigns to a created
  document.
\<close>

record env =
  fault :: "string option"
  new_id :: string

definition has_id :: "string \<Rightarrow> obj \<Rightarrow> bool" where
  "has_id i d = (map_of d ''_id'' = Some (JStr i))"

text \<open>\<^verbatim>\<open>Restaurant.find().limit(n).exec()\<close>\<close>

definition find_limit :: "nat \<Rightarrow> env \<Rightarrow> obj list \<Rightarrow> obj list promise" where
  "find_limit n e db =
     (case fault e of
        Some why \<Rightarrow> Rejected (StoreError why)
      | None \<Rightarrow> Resolved (take n db))"

text \<open>
  \<^verbatim>\<open>Restaurant.findById(id).exec()\<close>: resolves with the document, and with \<open>null\<close>
  (here \<open>None\<close>) when no document has the identifier.
\<close>

definition findById :: "string \<Rightarrow> env \<Rightarrow> obj list \<Rightarrow> obj option promise" where
  "findById i e db =
     (case fault e of
        Some why \<Rightarrow> Rejected (StoreError why)
      | None \<Rightarrow> Resolved (List.find (has_id i) db))"

text \<open>
  \<^verbatim>\<open>Restaurant.create(object)\<close>: a property whose value is \<open>undefined\<close> is not stored.
\<close>

definition defined_props :: "(string \<times> json option) list \<Rightarrow> obj" where
  "defined_props props = List.map_filter (\<lambda>(k, v). map_option (Pair k) v) props"

definition create ::
  "(string \<times> json option) list \<Rightarrow> env \<Rightarrow> obj list \<Rightarrow> obj promise \<times> obj list" where
  "create props e db =
     (case fault e of
        Some why \<Rightarrow> (Rejected (StoreError why), db)
      | None \<Rightarrow>
          (let d = (''_id'', JStr (new_id e)) # defined_props props
           in (Resolved d, db @ [d])))"

text \<open>
  \<^verbatim>\<open>Restaurant.findByIdAndUpdate(id, {$set: toUpdate}).exec()\<close>. The source's comment:
  all key/value pairs in \<open>toUpdate\<close> will be updated, that is what \<open>$set\<close> does. The
  promise resolves with the document found, or with \<open>null\<close>.
\<close>

definition set_fields :: "obj \<Rightarrow> obj \<Rightarrow> obj" where
  "set_fields upd d = fold (\<lambda>(k, v). AList.update k v) upd d"

fun update_by_id :: "string \<Rightarrow> obj \<Rightarrow> obj list \<Rightarrow> obj list" where
  "update_by_id i upd [] = []"
| "update_by_id i upd (d # ds) =
     (if has_id i d then set_fields upd d # ds else d # update_by_id i upd ds)"

definition findByIdAndUpdate ::
  "string \<Rightarrow> obj \<Rightarrow> env \<Rightarrow> obj list \<Rightarrow> obj option promise \<times> obj list" where
  "findByIdAndUpdate i upd e db =
     (case fault e of
        Some why \<Rightarrow> (Rejected (StoreError why), db)
      | None \<Rightarrow> (Resolved (List.find (has_id i) db), update_by_id i upd db))"

text \<open>\<^verbatim>\<open>Restaurant.findByIdAndRemove(id).exec()\<close>\<close>

fun remove_by_id :: "string \<Rightarrow> obj list \<Rightarrow> obj list" where
  "remove_by_id i [] = []"
| "remove_by_id i (d # ds) = (if has_id i d then ds else d # remove_by_id i ds)"

definition findByIdAndRemove ::
  "string \<Rightarrow> env \<Rightarrow> obj list \<Rightarrow> obj option promise \<times> obj list" where
  "findByIdAndRemove i e db =
     (case fault e of
        Some why \<Rightarrow> (Rejected (StoreError why), db)
      | None \<Rightarrow> (Resolved (List.find (has_id i) db), remove_by_id i db))"

text \<open>
  Modelled from the spec: \<^verbatim>\<open>apiRepr\<close> is a method of the model in \<^verbatim>\<open>./models\<close>,
  which is not among the sources. The spec: an API representation containing exactly
  the fields id, name, borough, cuisine, address, grades, never adding fields not
  present in storage.
\<close>

definition apiRepr :: "obj \<Rightarrow> json" where
  "apiRepr d =
     JObj (List.map_filter (\<lambda>(k, f). map_option (Pair k) (map_of d f))
       [(''id'', ''_id''), (''name'', ''name''), (''borough'', ''borough''),
        (''cuisine'', ''cuisine''), (''address'', ''address''), (''grades'', ''grades'')])"

section \<open>The route handlers\<close>

definition internal_server_error :: payload where
  "internal_server_error = Json (JObj [(''message'', JStr ''Internal server error'')])"

text \<open>\<^verbatim>\<open>app.get('/restaurants', ...)\<close>\<close>

definition get_restaurants :: "env \<Rightarrow> obj list \<Rightarrow> result" where
  "get_restaurants e db =
     \<lparr>trace = StoreCall (Find 10) #
        then_catch (find_limit 10 e db)
          (\<lambda>restaurants.
             Inr [Respond 200 (Json (JObj [(''restaurants'', JArr (map apiRepr restaurants))]))])
          (\<lambda>err. [ConsoleErrorObj err, Respond 500 internal_server_error]),
      store = db, uncaught = None\<rparr>"

text \<open>
  \<^verbatim>\<open>app.get('/restaurants/:id', ...)\<close>. When the promise resolves with \<open>null\<close>, the
  call \<^verbatim>\<open>restaurant.apiRepr()\<close> throws inside the first callback.
\<close>

definition get_restaurant :: "string \<Rightarrow> env \<Rightarrow> obj list \<Rightarrow> result" where
  "get_restaurant pid e db =
     \<lparr>trace = StoreCall (FindById pid) #
        then_catch (findById pid e db)
          (\<lambda>restaurant.
             case restaurant of
               None \<Rightarrow> Inl (TypeError ''Cannot read property apiRepr of null'')
             | Some d \<Rightarrow> Inr [Respond 200 (Json (apiRepr d))])
          (\<lambda>err. [ConsoleErrorObj err, Respond 500 internal_server_error]),
      store = db, uncaught = None\<rparr>"

text \<open>
  \<^verbatim>\<open>app.post('/restaurants', ...)\<close>. The loop over \<open>requiredFields\<close> returns from the
  handler at the first field that is not in the body.
\<close>

definition requiredFields :: "string list" where
  "requiredFields = [''name'', ''borough'', ''cuisine'']"

fun first_missing :: "string list \<Rightarrow> body \<Rightarrow> string option" where
  "first_missing [] b = None"
| "first_missing (field # rest) b =
     (if \<not> js_in field b then Some field else first_missing rest b)"

definition missing_message :: "string \<Rightarrow> string" where
  "missing_message field = ''Missing `'' @ field @ ''` in request body''"

definition post_restaurant :: "body \<Rightarrow> env \<Rightarrow> obj list \<Rightarrow> result" where
  "post_restaurant b e db =
     (case first_missing requiredFields b of
        Some field \<Rightarrow>
          (let message = missing_message field
           in \<lparr>trace = [ConsoleError message, Respond 400 (Text message)],
               store = db, uncaught = None\<rparr>)
      | None \<Rightarrow>
          (let props =
                 [(''name'', get_prop b ''name''), (''borough'', get_prop b ''borough''),
                  (''cuisine'', get_prop b ''cuisine''), (''grades'', get_prop b ''grades''),
                  (''address'', get_prop b ''address'')];
               (p, db') = create props e db
           in \<lparr>trace = StoreCall (Create (defined_props props)) #
                  then_catch p
                    (\<lambda>restaurant. Inr [Respond 201 (Json (apiRepr restaurant))])
                    (\<lambda>err. [ConsoleErrorObj err, Respond 500 internal_server_error]),
               store = db', uncaught = None\<rparr>))"

text \<open>
  \<^verbatim>\<open>app.put('/restaurants/:id', ...)\<close>. The identifier check writes its response and
  does not return: the handler goes on to the update. Building the message converts the
  body's \<open>id\<close> to a string, which can throw; the handler then ends with the exception,
  having written and called nothing.
\<close>

definition ids_match :: "string \<Rightarrow> json option \<Rightarrow> bool" where
  "ids_match pid bid =
     (truthy (JStr pid) \<and> (case bid of None \<Rightarrow> False | Some v \<Rightarrow> truthy v \<and> JStr pid = v))"

definition mismatch_message :: "string \<Rightarrow> json option \<Rightarrow> string option" where
  "mismatch_message pid bid =
     map_option
       (\<lambda>s. ''Request path id ('' @ pid @ '') and request body id '' @ (''('' @ s @ '') must match''))
       (concat_operand bid)"

definition id_check :: "string \<Rightarrow> body \<Rightarrow> failure + event list" where
  "id_check pid b =
     (let bid = get_prop b ''id''
      in if \<not> ids_match pid bid then
           (case mismatch_message pid bid of
              None \<Rightarrow> Inl (TypeError ''Cannot convert object to primitive value'')
            | Some message \<Rightarrow>
                Inr [ConsoleError message,
                     Respond 400 (Json (JObj [(''message'', JStr message)]))])
         else Inr [])"

definition updateableFields :: "string list" where
  "updateableFields = [''name'', ''borough'', ''cuisine'', ''address'']"

text \<open>
  The \<^verbatim>\<open>forEach\<close> over \<open>updateableFields\<close>: a field that is in the body (its value is
  then defined) is assigned to \<open>toUpdate\<close>.
\<close>

definition build_update :: "string list \<Rightarrow> body \<Rightarrow> obj" where
  "build_update props b =
     fold (\<lambda>field toUpdate.
             case get_prop b field of
               Some v \<Rightarrow> AList.update field v toUpdate
             | None \<Rightarrow> toUpdate)
       props []"

definition put_restaurant :: "string \<Rightarrow> body \<Rightarrow> env \<Rightarrow> obj list \<Rightarrow> result" where
  "put_restaurant pid b e db =
     (case id_check pid b of
        Inl err \<Rightarrow> \<lparr>trace = [], store = db, uncaught = Some err\<rparr>
      | Inr checked \<Rightarrow>
          (let toUpdate = build_update updateableFields b;
               (p, db') = findByIdAndUpdate pid toUpdate e db
           in \<lparr>trace = checked @ StoreCall (FindByIdAndUpdate pid toUpdate) #
                  then_catch p
                    (\<lambda>restaurant. Inr [Respond 204 Empty])
                    (\<lambda>err. [Respond 500 internal_server_error]),
               store = db', uncaught = None\<rparr>))"

text \<open>\<^verbatim>\<open>app.delete('/restaurants/:id', ...)\<close>\<close>

definition delete_restaurant :: "string \<Rightarrow> env \<Rightarrow> obj list \<Rightarrow> result" where
  "delete_restaurant pid e db =
     (let (p, db') = findByIdAndRemove pid e db
      in \<lparr>trace = StoreCall (FindByIdAndRemove pid) #
             then_catch p
               (\<lambda>restaurant. Inr [Respond 204 Empty])
               (\<lambda>err. [Respond 500 internal_server_error]),
          store = db', uncaught = None\<rparr>)"

text \<open>\<^verbatim>\<open>app.use('*', ...)\<close>, the catch-all for every other request.\<close>

definition not_found :: "obj list \<Rightarrow> result" where
  "not_found db =
     \<lparr>trace = [Respond 404 (Json (JObj [(''message'', JStr ''Not Found'')]))],
      store = db, uncaught = None\<rparr>"

datatype request =
    GetRestaurants
  | GetRestaurant string
  | PostRestaurant body
  | PutRestaurant string body
  | DeleteRestaurant string
  | Unmatched

fun handle :: "request \<Rightarrow> env \<Rightarrow> obj list \<Rightarrow> result" where
  "handle GetRestaurants e db = get_restaurants e db"
| "handle (GetRestaurant pid) e db = get_restaurant pid e db"
| "handle (PostRestaurant b) e db = post_restaurant b e db"
| "handle (PutRestaurant pid b) e db = put_restaurant pid b e db"
| "handle (DeleteRestaurant pid) e db = delete_restaurant pid e db"
| "handle Unmatched e db = not_found db"

section \<open>Starting and stopping the server\<close>

text \<open>
  \<^verbatim>\<open>runServer\<close> and \<^verbatim>\<open>closeServer\<close> chain callbacks of the store client and of the
  listening socket. What these collaborators answer is an input of the model
  (\<open>outcomes\<close>); what the two functions do is the list of their steps, in order, and
  the promise they return, settled. \<open>DATABASE_URL\<close> and \<open>PORT\<close> come from
  \<^verbatim>\<open>./config\<close>, which is not among the sources, so they are parameters. The variable
  \<open>server\<close> of the module is \<open>None\<close> while it is \<open>undefined\<close>, and otherwise the server
  object, known by its port.
\<close>

datatype step =
    Connect string
  | Listen nat
  | Listening nat
  | Disconnect
  | Disconnected
  | ConsoleLog string
  | Close
  | Closed

record config =
  DATABASE_URL :: string
  PORT :: nat

record outcomes =
  connect_error :: "string option"
  listen_error :: "string option"
  disconnect_error :: "string option"
  close_error :: "string option"

record lifecycle =
  settled :: "unit promise"
  steps :: "step list"
  server :: "nat option"

text \<open>
  \<^verbatim>\<open>runServer(databaseUrl = DATABASE_URL, port = PORT)\<close>. \<open>Listen\<close> is the call of
  \<^verbatim>\<open>app.listen\<close>, which creates the server object and tries to bind; \<open>Listening\<close> is
  its callback, run once the socket accepts connections (it logs the port and resolves
  the promise). The handler of the socket's \<open>error\<close> event calls
  \<^verbatim>\<open>mongoose.disconnect()\<close> and rejects.
\<close>

definition runServer ::
  "config \<Rightarrow> string option \<Rightarrow> nat option \<Rightarrow> outcomes \<Rightarrow> nat option \<Rightarrow> lifecycle" where
  "runServer cfg arg0 arg1 out srv =
     (let databaseUrl = (case arg0 of Some url \<Rightarrow> url | None \<Rightarrow> DATABASE_URL cfg);
          port = (case arg1 of Some p \<Rightarrow> p | None \<Rightarrow> PORT cfg)
      in case connect_error out of
           Some err \<Rightarrow>
             \<lparr>settled = Rejected (StoreError err), steps = [Connect databaseUrl], server = srv\<rparr>
         | None \<Rightarrow>
             (case listen_error out of
                None \<Rightarrow>
                  \<lparr>settled = Resolved (),
                   steps = [Connect databaseUrl, Listen port, Listening port],
                   server = Some port\<rparr>
              | Some err \<Rightarrow>
                  \<lparr>settled = Rejected (SocketError err),
                   steps = [Connect databaseUrl, Listen port, Disconnect],
                   server = Some port\<rparr>))"

text \<open>
  \<^verbatim>\<open>closeServer()\<close>: \<^verbatim>\<open>mongoose.disconnect().then(...)\<close>, and in the callback a new
  promise that logs, calls \<^verbatim>\<open>server.close\<close> and settles in its callback. \<open>Disconnected\<close>
  is the disconnect's promise resolving, \<open>Closed\<close> the callback of \<open>close\<close> running
  without an error. With \<open>server\<close> still \<open>undefined\<close> the call of \<open>close\<close> throws.
\<close>

definition closeServer :: "outcomes \<Rightarrow> nat option \<Rightarrow> lifecycle" where
  "closeServer out srv =
     (case disconnect_error out of
        Some err \<Rightarrow> \<lparr>settled = Rejected (StoreError err), steps = [Disconnect], server = srv\<rparr>
      | None \<Rightarrow>
          (case srv of
             None \<Rightarrow>
               \<lparr>settled = Rejected (TypeError ''Cannot read property close of undefined''),
                steps = [Disconnect, Disconnected, ConsoleLog ''Closing server''],
                server = srv\<rparr>
           | Some s \<Rightarrow>
               (case close_error out of
                  Some err \<Rightarrow>
                    \<lparr>settled = Rejected (SocketError err),
                     steps = [Disconnect, Disconnected, ConsoleLog ''Closing server'', Close],
                     server = srv\<rparr>
                | None \<Rightarrow>
                    \<lparr>settled = Resolved (),
                     steps = [Disconnect, Disconnected, ConsoleLog ''Closing server'', Close,
                              Closed],
                     server = srv\<rparr>)))"

text \<open>\<open>before a b xs\<close>: \<open>a\<close> occurs in \<open>xs\<close>, and \<open>b\<close> occurs after its first occurrence.\<close>

fun before :: "'a \<Rightarrow> 'a \<Rightarrow> 'a list \<Rightarrow> bool" where
  "before a b [] = False"
| "before a b (x # xs) = (if x = a then b \<in> set xs else before a b xs)"

section \<open>Facts about the update set and the store\<close>

lemma map_of_fold_update:
  "map_of (fold (\<lambda>field toUpdate. case get_prop b field of
                    Some v \<Rightarrow> AList.update field v toUpdate | None \<Rightarrow> toUpdate) fs acc) k
   = (if k \<in> set fs \<and> get_prop b k \<noteq> None then get_prop b k else map_of acc k)"
  by (induction fs arbitrary: acc) (auto simp: update_conv' split: option.splits)

lemma map_of_build_update:
  "map_of (build_update fs b) k = (if k \<in> set fs then get_prop b k else None)"
  by (simp add: build_update_def map_of_fold_update)

lemma keys_build_update:
  "fst ` set (build_update fs b) = set fs \<inter> {k. js_in k b}"
proof -
  have "fst ` set (build_update fs b) = dom (map_of (build_update fs b))"
    by (simp add: dom_map_of_conv_image_fst)
  also have "\<dots> = set fs \<inter> {k. js_in k b}"
    by (auto simp: map_of_build_update js_in_def dom_def)
  finally show ?thesis .
qed

lemma distinct_fold_update:
  "distinct (map fst acc) \<Longrightarrow>
   distinct (map fst (fold (\<lambda>field toUpdate. case get_prop b field of
                    Some v \<Rightarrow> AList.update field v toUpdate | None \<Rightarrow> toUpdate) fs acc))"
  by (induction fs arbitrary: acc) (auto simp: distinct_update split: option.splits)

lemma distinct_build_update: "distinct (map fst (build_update fs b))"
  by (simp add: build_update_def distinct_fold_update)

lemma map_of_set_fields_rev:
  "map_of (set_fields upd d) = map_of d ++ map_of (rev upd)"
  unfolding set_fields_def
  by (induction upd arbitrary: d) (auto simp: update_conv')

lemma set_fields_frame:
  "k \<notin> fst ` set upd \<Longrightarrow> map_of (set_fields upd d) k = map_of d k"
  by (simp add: map_of_set_fields_rev map_add_def map_of_eq_None_iff [THEN iffD2])

lemma set_fields_sets:
  assumes "distinct (map fst upd)" and "k \<in> fst ` set upd"
  shows "map_of (set_fields upd d) k = map_of upd k"
proof -
  from assms(2) obtain v where kv: "(k, v) \<in> set upd" by auto
  with assms(1) have "map_of upd k = Some v" by simp
  moreover from kv assms(1) have "map_of (rev upd) k = Some v"
    by (simp add: distinct_rev rev_map [symmetric])
  ultimately show ?thesis
    by (simp add: map_of_set_fields_rev map_add_def)
qed

lemma length_update_by_id: "length (update_by_id i upd db) = length db"
  by (induction db) auto

lemma update_by_id_frame:
  "j < length db \<Longrightarrow> k \<notin> fst ` set upd \<Longrightarrow>
   map_of (update_by_id i upd db ! j) k = map_of (db ! j) k"
proof (induction db arbitrary: j)
  case Nil
  then show ?case by simp
next
  case (Cons d ds)
  then show ?case
    by (cases j) (auto simp: set_fields_frame)
qed

lemma update_by_id_others:
  "j < length db \<Longrightarrow> \<not> has_id i (db ! j) \<Longrightarrow> update_by_id i upd db ! j = db ! j"
proof (induction db arbitrary: j)
  case Nil
  then show ?case by simp
next
  case (Cons d ds)
  then show ?case by (cases j) auto
qed

lemma has_id_set_fields:
  "''_id'' \<notin> fst ` set upd \<Longrightarrow> has_id i (set_fields upd d) = has_id i d"
  by (simp add: has_id_def set_fields_frame)

lemma find_update_by_id:
  "''_id'' \<notin> fst ` set upd \<Longrightarrow>
   List.find (has_id i) (update_by_id i upd db) = map_option (set_fields upd) (List.find (has_id i) db)"
  by (induction db) (auto simp: has_id_set_fields)

lemma id_check_cases:
  "id_check pid b = Inr []
   \<or> (\<exists>m. id_check pid b = Inr [ConsoleError m, Respond 400 (Json (JObj [(''message'', JStr m)]))])
   \<or> (\<exists>err. id_check pid b = Inl err)"
  by (auto simp: id_check_def Let_def split: option.splits)

lemma put_store:
  "store (put_restaurant pid b e db) = db
   \<or> store (put_restaurant pid b e db) = update_by_id pid (build_update updateableFields b) db"
  by (auto simp: put_restaurant_def findByIdAndUpdate_def Let_def split: sum.splits option.splits)

lemma put_store_calls:
  "store_calls (trace (put_restaurant pid b e db)) =
     (case uncaught (put_restaurant pid b e db) of
        None \<Rightarrow> [FindByIdAndUpdate pid (build_update updateableFields b)]
      | Some err \<Rightarrow> [])"
  using id_check_cases [of pid b]
  by (auto simp: put_restaurant_def findByIdAndUpdate_def then_catch_def Let_def
        split: option.splits)

lemma put_mismatch_trace:
  assumes "\<not> ids_match pid (get_prop b ''id'')"
    and "concat_operand (get_prop b ''id'') = Some s"
  shows "trace (put_restaurant pid b e db) =
           [ConsoleError (''Request path id ('' @ pid @ '') and request body id ('' @ s @ '') must match''),
            Respond 400 (Json (JObj [(''message'',
              JStr (''Request path id ('' @ pid @ '') and request body id ('' @ s @ '') must match''))])),
            StoreCall (FindByIdAndUpdate pid (build_update updateableFields b)),
            (if fault e = None then Respond 204 Empty else Respond 500 internal_server_error)]"
    and "fault e = None \<Longrightarrow>
           store (put_restaurant pid b e db) = update_by_id pid (build_update updateableFields b) db"
  using assms
  by (auto simp: put_restaurant_def id_check_def mismatch_message_def findByIdAndUpdate_def
        then_catch_def Let_def split: option.splits)

section \<open>The claims\<close>

text \<open>
  Claim C1. For every PUT request, the update sent to the store holds exactly the fields
  of \<open>name\<close>, \<open>borough\<close>, \<open>cuisine\<close>, \<open>address\<close> that are keys of the request body,
  each with the body's value, and every stored field outside that set is left as it
  was. The handler makes one store call, the update, unless it ends with an exception
  before the call. The collection keeps its length, no field outside the set changes in
  any document, and a document with another identifier does not change at all.
\<close>

theorem put_update_is_whitelist_of_body:
  "(let r = put_restaurant pid b e db;
        sent = {''name'', ''borough'', ''cuisine'', ''address''} \<inter> {k. js_in k b}
    in (\<exists>upd. store_calls (trace r) =
                 (case uncaught r of None \<Rightarrow> [FindByIdAndUpdate pid upd] | Some err \<Rightarrow> [])
            \<and> fst ` set upd = sent
            \<and> (\<forall>k \<in> sent. map_of upd k = get_prop b k))
     \<and> length (store r) = length db
     \<and> (\<forall>j < length db. \<forall>k. k \<notin> sent \<longrightarrow> map_of (store r ! j) k = map_of (db ! j) k)
     \<and> (\<forall>j < length db. \<not> has_id pid (db ! j) \<longrightarrow> store r ! j = db ! j))"
proof -
  define upd where "upd = build_update updateableFields b"
  define sent where "sent = {''name'', ''borough'', ''cuisine'', ''address''} \<inter> {k. js_in k b}"
  have keys: "fst ` set upd = sent"
    by (simp add: upd_def sent_def keys_build_update updateableFields_def)
  have vals: "\<forall>k \<in> sent. map_of upd k = get_prop b k"
    by (auto simp: upd_def sent_def map_of_build_update updateableFields_def)
  have calls: "store_calls (trace (put_restaurant pid b e db)) =
      (case uncaught (put_restaurant pid b e db) of
         None \<Rightarrow> [FindByIdAndUpdate pid upd] | Some err \<Rightarrow> [])"
    unfolding upd_def by (rule put_store_calls)
  have st: "store (put_restaurant pid b e db) = db
      \<or> store (put_restaurant pid b e db) = update_by_id pid upd db"
    using put_store [of pid b e db] by (simp add: upd_def)
  have len: "length (store (put_restaurant pid b e db)) = length db"
    using st by (auto simp: length_update_by_id)
  have frame: "\<forall>j < length db. \<forall>k. k \<notin> sent \<longrightarrow>
      map_of (store (put_restaurant pid b e db) ! j) k = map_of (db ! j) k"
    using st keys by (auto simp: update_by_id_frame)
  have others: "\<forall>j < length db. \<not> has_id pid (db ! j) \<longrightarrow>
      store (put_restaurant pid b e db) ! j = db ! j"
    using st by (auto simp: update_by_id_others)
  from keys vals calls len frame others show ?thesis
    unfolding Let_def sent_def [symmetric] by blast
qed

text \<open>
  Claim C1, at a concrete request: the body names \<open>name\<close> and \<open>grades\<close>; the update holds
  \<open>name\<close> only, and the stored \<open>borough\<close> is still \<open>Queens\<close>.
\<close>

theorem put_update_is_whitelist_of_body_witness:
  "store_calls (trace (put_restaurant ''a1''
       (BodyObj [(''id'', JStr ''a1''), (''name'', JStr ''Test2''), (''grades'', JArr [])])
       \<lparr>fault = None, new_id = []\<rparr>
       [[(''_id'', JStr ''a1''), (''name'', JStr ''Test''), (''borough'', JStr ''Queens'')]]))
     = [FindByIdAndUpdate ''a1'' [(''name'', JStr ''Test2'')]]
   \<and> map_of (store (put_restaurant ''a1''
       (BodyObj [(''id'', JStr ''a1''), (''name'', JStr ''Test2''), (''grades'', JArr [])])
       \<lparr>fault = None, new_id = []\<rparr>
       [[(''_id'', JStr ''a1''), (''name'', JStr ''Test''), (''borough'', JStr ''Queens'')]]) ! 0)
       ''borough'' = Some (JStr ''Queens'')"
proof -
  let ?b = "BodyObj [(''id'', JStr ''a1''), (''name'', JStr ''Test2''), (''grades'', JArr [])]"
  let ?e = "\<lparr>fault = None, new_id = []\<rparr>"
  let ?db = "[[(''_id'', JStr ''a1''), (''name'', JStr ''Test''), (''borough'', JStr ''Queens'')]]"
  let ?r = "put_restaurant ''a1'' ?b ?e ?db"
  let ?sent = "{''name'', ''borough'', ''cuisine'', ''address''} \<inter> {k. js_in k ?b}"
  have sent: "?sent = {''name''}"
    by (auto simp: js_in_def)
  have unc: "uncaught ?r = None"
    by (simp add: put_restaurant_def id_check_def ids_match_def findByIdAndUpdate_def Let_def)
  from put_update_is_whitelist_of_body [of "''a1''" ?b ?e ?db]
  obtain upd where
    calls: "store_calls (trace ?r) = [FindByIdAndUpdate ''a1'' upd]" and
    keys: "fst ` set upd = {''name''}" and
    vals: "\<forall>k \<in> {''name''}. map_of upd k = get_prop ?b k" and
    frame: "\<forall>j < length ?db. \<forall>k. k \<notin> {''name''} \<longrightarrow> map_of (store ?r ! j) k = map_of (?db ! j) k"
    unfolding Let_def sent unc by auto
  have "store_calls (trace ?r) = [FindByIdAndUpdate ''a1'' [(''name'', JStr ''Test2'')]]"
    by (simp add: put_restaurant_def id_check_def ids_match_def findByIdAndUpdate_def
          then_catch_def build_update_def updateableFields_def Let_def)
  moreover from frame have "map_of (store ?r ! 0) ''borough'' = Some (JStr ''Queens'')"
    by simp
  ultimately show ?thesis by simp
qed

text \<open>
  Claim C2. For every POST request whose body lacks at least one of \<open>name\<close>,
  \<open>borough\<close>, \<open>cuisine\<close>, the handler logs a message naming the first missing field in
  that order, answers 400 with the message as text, and stops: it calls the store not at
  all and the collection is unchanged.
\<close>

theorem post_missing_required_field:
  assumes "\<not> (js_in ''name'' b \<and> js_in ''borough'' b \<and> js_in ''cuisine'' b)"
  shows "(let field = (if \<not> js_in ''name'' b then ''name''
                       else if \<not> js_in ''borough'' b then ''borough'' else ''cuisine'');
              message = ''Missing `'' @ field @ ''` in request body'';
              r = post_restaurant b e db
          in trace r = [ConsoleError message, Respond 400 (Text message)]
           \<and> client_response (trace r) = Some (400, Text message)
           \<and> store_calls (trace r) = []
           \<and> store r = db
           \<and> uncaught r = None)"
  using assms
  by (auto simp: post_restaurant_def requiredFields_def missing_message_def
        client_response_def Let_def)

text \<open>
  Claim C2, at a concrete request: the body has \<open>name\<close> and \<open>cuisine\<close>; the answer names
  \<open>borough\<close>.
\<close>

theorem post_missing_required_field_witness:
  "\<not> (js_in ''name'' (BodyObj [(''name'', JStr ''Test''), (''cuisine'', JStr ''Diner'')])
      \<and> js_in ''borough'' (BodyObj [(''name'', JStr ''Test''), (''cuisine'', JStr ''Diner'')])
      \<and> js_in ''cuisine'' (BodyObj [(''name'', JStr ''Test''), (''cuisine'', JStr ''Diner'')]))
   \<and> trace (post_restaurant (BodyObj [(''name'', JStr ''Test''), (''cuisine'', JStr ''Diner'')])
        \<lparr>fault = None, new_id = ''n1''\<rparr> [])
     = [ConsoleError ''Missing `borough` in request body'',
        Respond 400 (Text ''Missing `borough` in request body'')]
   \<and> store_calls (trace (post_restaurant (BodyObj [(''name'', JStr ''Test''), (''cuisine'', JStr ''Diner'')])
        \<lparr>fault = None, new_id = ''n1''\<rparr> [])) = []"
proof -
  have h: "\<not> (js_in ''name'' (BodyObj [(''name'', JStr ''Test''), (''cuisine'', JStr ''Diner'')])
      \<and> js_in ''borough'' (BodyObj [(''name'', JStr ''Test''), (''cuisine'', JStr ''Diner'')])
      \<and> js_in ''cuisine'' (BodyObj [(''name'', JStr ''Test''), (''cuisine'', JStr ''Diner'')]))"
    by (simp add: js_in_def)
  show ?thesis
    using h post_missing_required_field [OF h, of "\<lparr>fault = None, new_id = ''n1''\<rparr>" "[]"]
    by (simp add: js_in_def Let_def)
qed

text \<open>
  Claim C3 says that every PUT request whose path and body identifiers are not both
  present and equal is answered 400 with a descriptive message. The handler builds the
  message by concatenating the body's \<open>id\<close> into a string. When that value is an object
  with an own property \<open>toString\<close>, the conversion throws: the handler ends with a
  \<open>TypeError\<close>, having written no response (and called nothing). This is the handler at
  such a body, for every path identifier, store answer and collection.
\<close>

theorem put_unprintable_body_id_throws:
  "put_restaurant pid (BodyObj [(''id'', JObj [(''toString'', JNum ''1'')])]) e db
     = \<lparr>trace = [], store = db,
        uncaught = Some (TypeError ''Cannot convert object to primitive value'')\<rparr>"
  by (simp add: put_restaurant_def id_check_def ids_match_def mismatch_message_def
        concat_operand_def)

text \<open>
  Claim C4, as stated, says that every PUT request that fails the identifier check goes
  on to the store's update. It does not when building the message throws: the check
  fails, the handler does nothing at all, and the stored document keeps its name.
\<close>

theorem put_mismatch_unprintable_id_no_update:
  "\<not> ids_match ''a1''
       (get_prop (BodyObj [(''id'', JObj [(''toString'', JNum ''1'')]), (''name'', JStr ''Test2'')]) ''id'')
   \<and> trace (put_restaurant ''a1''
       (BodyObj [(''id'', JObj [(''toString'', JNum ''1'')]), (''name'', JStr ''Test2'')])
       \<lparr>fault = None, new_id = []\<rparr>
       [[(''_id'', JStr ''a1''), (''name'', JStr ''Test'')]]) = []
   \<and> store (put_restaurant ''a1''
       (BodyObj [(''id'', JObj [(''toString'', JNum ''1'')]), (''name'', JStr ''Test2'')])
       \<lparr>fault = None, new_id = []\<rparr>
       [[(''_id'', JStr ''a1''), (''name'', JStr ''Test'')]])
     = [[(''_id'', JStr ''a1''), (''name'', JStr ''Test'')]]"
  by (simp add: put_restaurant_def id_check_def ids_match_def mismatch_message_def
        concat_operand_def)

text \<open>
  Claim C4, amended. For every PUT request that fails the identifier check and whose
  body \<open>id\<close> converts to a string \<open>s\<close>, the handler logs the message, writes the 400
  with it, and nevertheless calls the store's update by the path identifier with the
  whitelisted body fields; then it attempts a second write on the response (204, or 500
  when the store rejects the call). The client receives the 400. When the store accepts
  the call and a document has the path identifier, that document afterwards holds the
  body's value in each whitelisted field sent, and its other fields as before.
\<close>

theorem put_mismatch_still_updates:
  assumes "\<not> ids_match pid (get_prop b ''id'')"
    and "concat_operand (get_prop b ''id'') = Some s"
  shows "(let r = put_restaurant pid b e db;
              message = ''Request path id ('' @ pid @ '') and request body id ('' @ s @ '') must match'';
              sent = {''name'', ''borough'', ''cuisine'', ''address''} \<inter> {k. js_in k b}
          in (\<exists>upd. fst ` set upd = sent
                \<and> (\<forall>k \<in> sent. map_of upd k = get_prop b k)
                \<and> trace r =
                    [ConsoleError message,
                     Respond 400 (Json (JObj [(''message'', JStr message)])),
                     StoreCall (FindByIdAndUpdate pid upd),
                     (if fault e = None then Respond 204 Empty
                      else Respond 500 internal_server_error)])
           \<and> client_response (trace r) = Some (400, Json (JObj [(''message'', JStr message)]))
           \<and> (\<forall>d. fault e = None \<and> List.find (has_id pid) db = Some d \<longrightarrow>
                (\<exists>d'. List.find (has_id pid) (store r) = Some d'
                   \<and> (\<forall>k \<in> sent. map_of d' k = get_prop b k)
                   \<and> (\<forall>k. k \<notin> sent \<longrightarrow> map_of d' k = map_of d k))))"
proof -
  define upd where "upd = build_update updateableFields b"
  define sent where "sent = {''name'', ''borough'', ''cuisine'', ''address''} \<inter> {k. js_in k b}"
  define message where
    "message = ''Request path id ('' @ pid @ '') and request body id ('' @ s @ '') must match''"
  have keys: "fst ` set upd = sent"
    by (simp add: upd_def sent_def keys_build_update updateableFields_def)
  have vals: "\<forall>k \<in> sent. map_of upd k = get_prop b k"
    by (auto simp: upd_def sent_def map_of_build_update updateableFields_def)
  have dist: "distinct (map fst upd)"
    by (simp add: upd_def distinct_build_update)
  have noid: "''_id'' \<notin> fst ` set upd"
    by (simp add: keys sent_def)
  have tr: "trace (put_restaurant pid b e db) =
      [ConsoleError message, Respond 400 (Json (JObj [(''message'', JStr message)])),
       StoreCall (FindByIdAndUpdate pid upd),
       (if fault e = None then Respond 204 Empty else Respond 500 internal_server_error)]"
    unfolding upd_def message_def by (rule put_mismatch_trace(1) [OF assms])
  have cr: "client_response (trace (put_restaurant pid b e db))
      = Some (400, Json (JObj [(''message'', JStr message)]))"
    by (simp add: tr client_response_def)
  have eff: "\<exists>d'. List.find (has_id pid) (store (put_restaurant pid b e db)) = Some d'
        \<and> (\<forall>k \<in> sent. map_of d' k = get_prop b k)
        \<and> (\<forall>k. k \<notin> sent \<longrightarrow> map_of d' k = map_of d k)"
    if ok: "fault e = None" and found: "List.find (has_id pid) db = Some d" for d
  proof -
    have st: "store (put_restaurant pid b e db) = update_by_id pid upd db"
      unfolding upd_def by (rule put_mismatch_trace(2) [OF assms ok])
    have "List.find (has_id pid) (store (put_restaurant pid b e db)) = Some (set_fields upd d)"
      by (simp add: st find_update_by_id [OF noid] found)
    moreover have "\<forall>k \<in> sent. map_of (set_fields upd d) k = get_prop b k"
      using vals keys by (simp add: set_fields_sets [OF dist])
    moreover have "\<forall>k. k \<notin> sent \<longrightarrow> map_of (set_fields upd d) k = map_of d k"
      using keys by (simp add: set_fields_frame)
    ultimately show ?thesis by blast
  qed
  from keys vals tr cr eff show ?thesis
    unfolding Let_def sent_def [symmetric] message_def [symmetric] by blast
qed

text \<open>
  Claim C4, amended, at a concrete request: path identifier \<open>a1\<close>, body identifier
  \<open>b2\<close>; the document \<open>a1\<close> is renamed although the client is answered 400.
\<close>

theorem put_mismatch_still_updates_witness:
  "trace (put_restaurant ''a1''
       (BodyObj [(''id'', JStr ''b2''), (''name'', JStr ''Test2'')])
       \<lparr>fault = None, new_id = []\<rparr>
       [[(''_id'', JStr ''a1''), (''name'', JStr ''Test''), (''borough'', JStr ''Queens'')]])
     = [ConsoleError ''Request path id (a1) and request body id (b2) must match'',
        Respond 400 (Json (JObj [(''message'',
          JStr ''Request path id (a1) and request body id (b2) must match'')])),
        StoreCall (FindByIdAndUpdate ''a1'' [(''name'', JStr ''Test2'')]),
        Respond 204 Empty]
   \<and> store (put_restaurant ''a1''
       (BodyObj [(''id'', JStr ''b2''), (''name'', JStr ''Test2'')])
       \<lparr>fault = None, new_id = []\<rparr>
       [[(''_id'', JStr ''a1''), (''name'', JStr ''Test''), (''borough'', JStr ''Queens'')]])
     = [[(''_id'', JStr ''a1''), (''name'', JStr ''Test2''), (''borough'', JStr ''Queens'')]]
   \<and> client_response (trace (put_restaurant ''a1''
       (BodyObj [(''id'', JStr ''b2''), (''name'', JStr ''Test2'')])
       \<lparr>fault = None, new_id = []\<rparr>
       [[(''_id'', JStr ''a1''), (''name'', JStr ''Test''), (''borough'', JStr ''Queens'')]]))
     = Some (400, Json (JObj [(''message'',
          JStr ''Request path id (a1) and request body id (b2) must match'')]))"
proof -
  let ?b = "BodyObj [(''id'', JStr ''b2''), (''name'', JStr ''Test2'')]"
  let ?e = "\<lparr>fault = None, new_id = []\<rparr>"
  let ?db = "[[(''_id'', JStr ''a1''), (''name'', JStr ''Test''), (''borough'', JStr ''Queens'')]]"
  have h1: "\<not> ids_match ''a1'' (get_prop ?b ''id'')"
    by (simp add: ids_match_def)
  have h2: "concat_operand (get_prop ?b ''id'') = Some ''b2''"
    by (simp add: concat_operand_def)
  from put_mismatch_still_updates [OF h1 h2, of ?e ?db]
  have "client_response (trace (put_restaurant ''a1'' ?b ?e ?db))
      = Some (400, Json (JObj [(''message'',
          JStr ''Request path id (a1) and request body id (b2) must match'')]))"
    unfolding Let_def by simp
  moreover have "trace (put_restaurant ''a1'' ?b ?e ?db)
     = [ConsoleError ''Request path id (a1) and request body id (b2) must match'',
        Respond 400 (Json (JObj [(''message'',
          JStr ''Request path id (a1) and request body id (b2) must match'')])),
        StoreCall (FindByIdAndUpdate ''a1'' [(''name'', JStr ''Test2'')]),
        Respond 204 Empty]"
    by (simp add: put_restaurant_def id_check_def ids_match_def mismatch_message_def
          concat_operand_def findByIdAndUpdate_def then_catch_def build_update_def
          updateableFields_def Let_def)
  moreover have "store (put_restaurant ''a1'' ?b ?e ?db)
     = [[(''_id'', JStr ''a1''), (''name'', JStr ''Test2''), (''borough'', JStr ''Queens'')]]"
    by (simp add: put_restaurant_def id_check_def ids_match_def mismatch_message_def
          concat_operand_def findByIdAndUpdate_def then_catch_def build_update_def
          updateableFields_def has_id_def set_fields_def Let_def)
  ultimately show ?thesis by simp
qed

text \<open>
  Claim C5, as stated, says that on every route a store failure, a document not found
  included, is answered 500 and the error is logged. On DELETE a rejected store call is
  answered 500 but nothing is logged, and a document that is not found is answered 204.
\<close>

theorem delete_rejection_not_logged_missing_is_204:
  "trace (handle (DeleteRestaurant ''zz'') \<lparr>fault = Some ''boom'', new_id = []\<rparr> [])
     = [StoreCall (FindByIdAndRemove ''zz''),
        Respond 500 (Json (JObj [(''message'', JStr ''Internal server error'')]))]
   \<and> client_response (trace (handle (DeleteRestaurant ''zz'') \<lparr>fault = None, new_id = []\<rparr> []))
     = Some (204, Empty)"
  by (simp add: delete_restaurant_def findByIdAndRemove_def then_catch_def client_response_def
        internal_server_error_def)

text \<open>
  Claim C5, amended. On every route, when the handler's store call is rejected, the
  handler's last action is the write of 500 with the generic message
  \<open>Internal server error\<close>; what the handler writes does not depend on the error; the
  client receives that 500, unless the PUT handler had already written its 400 for
  mismatched identifiers; and the handlers of GET /restaurants, GET /restaurants/:id and
  POST /restaurants log the error. On GET /restaurants/:id a document that is not found
  is handled the same way: the error logged is the \<open>TypeError\<close> of the first callback.
\<close>

theorem store_rejection_is_generic_500:
  "(let r = handle rq e db
    in fault e = Some why \<and> store_calls (trace r) \<noteq> [] \<longrightarrow>
         last (trace r) = Respond 500 internal_server_error
       \<and> responses (trace (handle rq (e\<lparr>fault := Some other\<rparr>) db)) = responses (trace r)
       \<and> (client_response (trace r) = Some (500, internal_server_error)
          \<or> (\<exists>i bd. rq = PutRestaurant i bd \<and> \<not> ids_match i (get_prop bd ''id'')))
       \<and> ((\<exists>i bd. rq = GetRestaurants \<or> rq = GetRestaurant i \<or> rq = PostRestaurant bd) \<longrightarrow>
            ConsoleErrorObj (StoreError why) \<in> set (trace r)))
   \<and> (fault e = None \<and> (\<forall>d \<in> set db. \<not> has_id pid d) \<longrightarrow>
        trace (handle (GetRestaurant pid) e db) =
          [StoreCall (FindById pid),
           ConsoleErrorObj (TypeError ''Cannot read property apiRepr of null''),
           Respond 500 internal_server_error])"
proof -
  have rej: "last (trace (handle rq e db)) = Respond 500 internal_server_error
       \<and> responses (trace (handle rq (e\<lparr>fault := Some other\<rparr>) db)) = responses (trace (handle rq e db))
       \<and> (client_response (trace (handle rq e db)) = Some (500, internal_server_error)
          \<or> (\<exists>i bd. rq = PutRestaurant i bd \<and> \<not> ids_match i (get_prop bd ''id'')))
       \<and> ((\<exists>i bd. rq = GetRestaurants \<or> rq = GetRestaurant i \<or> rq = PostRestaurant bd) \<longrightarrow>
            ConsoleErrorObj (StoreError why) \<in> set (trace (handle rq e db)))"
    if f: "fault e = Some why" and c: "store_calls (trace (handle rq e db)) \<noteq> []"
  proof (cases rq)
    case GetRestaurants
    then show ?thesis
      using f by (simp add: get_restaurants_def find_limit_def then_catch_def client_response_def)
  next
    case (GetRestaurant i)
    then show ?thesis
      using f by (simp add: get_restaurant_def findById_def then_catch_def client_response_def)
  next
    case (PostRestaurant bd)
    then show ?thesis
      using f c
      by (cases "first_missing requiredFields bd")
         (simp_all add: post_restaurant_def create_def then_catch_def client_response_def Let_def)
  next
    case (PutRestaurant i bd)
    then show ?thesis
      using f c id_check_cases [of i bd]
      by (auto simp: put_restaurant_def findByIdAndUpdate_def then_catch_def
            client_response_def id_check_def Let_def split: if_splits option.splits)
  next
    case (DeleteRestaurant i)
    then show ?thesis
      using f
      by (simp add: delete_restaurant_def findByIdAndRemove_def then_catch_def client_response_def)
  next
    case Unmatched
    then show ?thesis
      using c by (simp add: not_found_def)
  qed
  have nf: "trace (handle (GetRestaurant pid) e db) =
          [StoreCall (FindById pid),
           ConsoleErrorObj (TypeError ''Cannot read property apiRepr of null''),
           Respond 500 internal_server_error]"
    if "fault e = None" and "\<forall>d \<in> set db. \<not> has_id pid d"
  proof -
    have "List.find (has_id pid) db = None"
      using that(2) by (simp add: find_None_iff)
    then show ?thesis
      using that(1) by (simp add: get_restaurant_def findById_def then_catch_def)
  qed
  from rej nf show ?thesis
    unfolding Let_def by blast
qed

text \<open>
  Claim C5, amended, at a concrete request: GET /restaurants with the store rejecting the
  query.
\<close>

theorem store_rejection_is_generic_500_witness:
  "last (trace (handle GetRestaurants \<lparr>fault = Some ''boom'', new_id = []\<rparr> []))
     = Respond 500 (Json (JObj [(''message'', JStr ''Internal server error'')]))
   \<and> ConsoleErrorObj (StoreError ''boom'')
       \<in> set (trace (handle GetRestaurants \<lparr>fault = Some ''boom'', new_id = []\<rparr> []))
   \<and> responses (trace (handle GetRestaurants \<lparr>fault = Some ''other'', new_id = []\<rparr> []))
     = responses (trace (handle GetRestaurants \<lparr>fault = Some ''boom'', new_id = []\<rparr> []))"
proof -
  let ?e = "\<lparr>fault = Some ''boom'', new_id = []\<rparr>"
  have h1: "fault ?e = Some ''boom''" by simp
  have h2: "store_calls (trace (handle GetRestaurants ?e [])) \<noteq> []"
    by (simp add: get_restaurants_def)
  from store_rejection_is_generic_500 [of GetRestaurants ?e "[]" "''boom''" "''other''"] h1 h2
  show ?thesis
    unfolding Let_def by (simp add: internal_server_error_def)
qed

text \<open>
  Claim C6. For every identifier that no stored document has, GET /restaurants/:id is
  answered 500 with the generic error body, and that is the only response written: when
  the store rejects the call, and also when it resolves with \<open>null\<close>.
\<close>

theorem get_missing_id_500:
  assumes "\<forall>d \<in> set db. \<not> has_id pid d"
  shows "client_response (trace (get_restaurant pid e db)) = Some (500, internal_server_error)
       \<and> responses (trace (get_restaurant pid e db)) = [(500, internal_server_error)]"
proof -
  have nf: "List.find (has_id pid) db = None"
    using assms by (simp add: find_None_iff)
  show ?thesis
    by (cases "fault e")
       (simp_all add: get_restaurant_def findById_def then_catch_def client_response_def nf)
qed

text \<open>
  Claim C6, at a concrete request: the collection holds \<open>a1\<close>, the request asks for
  \<open>zz\<close>.
\<close>

theorem get_missing_id_500_witness:
  "client_response (trace (get_restaurant ''zz'' \<lparr>fault = None, new_id = []\<rparr>
       [[(''_id'', JStr ''a1''), (''name'', JStr ''Test'')]]))
     = Some (500, Json (JObj [(''message'', JStr ''Internal server error'')]))"
proof -
  have h: "\<forall>d \<in> set [[(''_id'', JStr ''a1''), (''name'', JStr ''Test'')]]. \<not> has_id ''zz'' d"
    by (simp add: has_id_def)
  from get_missing_id_500 [OF h, of "\<lparr>fault = None, new_id = []\<rparr>"]
  show ?thesis by (simp add: internal_server_error_def)
qed

text \<open>
  Claim C7. For every PUT request, no update the handler sends to the store has the key
  \<open>id\<close> or \<open>_id\<close>, whatever the body holds, and the stored documents have the same
  identifiers, in the same order, after the request as before. Under every operation of
  the API the identifiers stay: a PUT keeps them, a POST only appends to the collection,
  a DELETE only removes from it, and every other request leaves the collection as it is.
\<close>

theorem put_never_changes_identifier:
  "(let r = put_restaurant pid b e db
    in (\<forall>i upd. FindByIdAndUpdate i upd \<in> set (store_calls (trace r)) \<longrightarrow>
          ''id'' \<notin> fst ` set upd \<and> ''_id'' \<notin> fst ` set upd)
     \<and> map (\<lambda>d. map_of d ''_id'') (store r) = map (\<lambda>d. map_of d ''_id'') db)
   \<and> (case rq of
         PutRestaurant i bd \<Rightarrow>
           map (\<lambda>d. map_of d ''_id'') (store (handle rq e db)) = map (\<lambda>d. map_of d ''_id'') db
       | PostRestaurant bd \<Rightarrow> prefix db (store (handle rq e db))
       | DeleteRestaurant i \<Rightarrow> subseq (store (handle rq e db)) db
       | _ \<Rightarrow> store (handle rq e db) = db)"
proof -
  have keys: "''id'' \<notin> fst ` set (build_update updateableFields bd)
      \<and> ''_id'' \<notin> fst ` set (build_update updateableFields bd)" for bd
    by (simp add: keys_build_update updateableFields_def)
  have ids: "map (\<lambda>d. map_of d ''_id'') (store (put_restaurant i bd e db))
      = map (\<lambda>d. map_of d ''_id'') db" for i bd
  proof (rule nth_equalityI)
    show "length (map (\<lambda>d. map_of d ''_id'') (store (put_restaurant i bd e db)))
        = length (map (\<lambda>d. map_of d ''_id'') db)"
      using put_store [of i bd e db] by (auto simp: length_update_by_id)
  next
    fix j
    assume "j < length (map (\<lambda>d. map_of d ''_id'') (store (put_restaurant i bd e db)))"
    then have j: "j < length db"
      using put_store [of i bd e db] by (auto simp: length_update_by_id)
    then have "map_of (store (put_restaurant i bd e db) ! j) ''_id'' = map_of (db ! j) ''_id''"
      using put_store [of i bd e db] keys [of bd] by (auto simp: update_by_id_frame)
    with j show "map (\<lambda>d. map_of d ''_id'') (store (put_restaurant i bd e db)) ! j
        = map (\<lambda>d. map_of d ''_id'') db ! j"
      using put_store [of i bd e db] by (auto simp: length_update_by_id)
  qed
  have calls: "\<forall>i upd. FindByIdAndUpdate i upd \<in> set (store_calls (trace (put_restaurant pid b e db)))
      \<longrightarrow> ''id'' \<notin> fst ` set upd \<and> ''_id'' \<notin> fst ` set upd"
    using keys [of b] by (auto simp: put_store_calls split: option.splits)
  have sub: "subseq (remove_by_id i db) db" for i
    by (induction db) auto
  have other: "case rq of
         PutRestaurant i bd \<Rightarrow>
           map (\<lambda>d. map_of d ''_id'') (store (handle rq e db)) = map (\<lambda>d. map_of d ''_id'') db
       | PostRestaurant bd \<Rightarrow> prefix db (store (handle rq e db))
       | DeleteRestaurant i \<Rightarrow> subseq (store (handle rq e db)) db
       | _ \<Rightarrow> store (handle rq e db) = db"
  proof (cases rq)
    case GetRestaurants
    then show ?thesis by (simp add: get_restaurants_def)
  next
    case (GetRestaurant i)
    then show ?thesis by (simp add: get_restaurant_def)
  next
    case (PostRestaurant bd)
    then show ?thesis
      by (auto simp: post_restaurant_def create_def Let_def split: option.splits)
  next
    case (PutRestaurant i bd)
    then show ?thesis by (simp add: ids)
  next
    case (DeleteRestaurant i)
    then show ?thesis
      by (auto simp: delete_restaurant_def findByIdAndRemove_def sub split: option.splits)
  next
    case Unmatched
    then show ?thesis by (simp add: not_found_def)
  qed
  from calls ids [of pid b] other show ?thesis
    unfolding Let_def by blast
qed

text \<open>
  Claim C7, at a concrete request: the body holds \<open>id\<close> and \<open>_id\<close>; the update holds
  neither and the document keeps its identifier \<open>a1\<close>.
\<close>

theorem put_never_changes_identifier_witness:
  "store_calls (trace (put_restaurant ''a1''
       (BodyObj [(''id'', JStr ''a1''), (''_id'', JStr ''zz''), (''name'', JStr ''Test2'')])
       \<lparr>fault = None, new_id = []\<rparr>
       [[(''_id'', JStr ''a1''), (''name'', JStr ''Test'')]]))
     = [FindByIdAndUpdate ''a1'' [(''name'', JStr ''Test2'')]]
   \<and> map (\<lambda>d. map_of d ''_id'') (store (put_restaurant ''a1''
       (BodyObj [(''id'', JStr ''a1''), (''_id'', JStr ''zz''), (''name'', JStr ''Test2'')])
       \<lparr>fault = None, new_id = []\<rparr>
       [[(''_id'', JStr ''a1''), (''name'', JStr ''Test'')]]))
     = [Some (JStr ''a1'')]"
proof -
  let ?b = "BodyObj [(''id'', JStr ''a1''), (''_id'', JStr ''zz''), (''name'', JStr ''Test2'')]"
  let ?e = "\<lparr>fault = None, new_id = []\<rparr>"
  let ?db = "[[(''_id'', JStr ''a1''), (''name'', JStr ''Test'')]]"
  have calls: "store_calls (trace (put_restaurant ''a1'' ?b ?e ?db))
      = [FindByIdAndUpdate ''a1'' [(''name'', JStr ''Test2'')]]"
    by (simp add: put_restaurant_def id_check_def ids_match_def findByIdAndUpdate_def
          then_catch_def build_update_def updateableFields_def Let_def)
  from put_never_changes_identifier [of "''a1''" ?b ?e ?db "PutRestaurant ''a1'' ?b"]
  have "map (\<lambda>d. map_of d ''_id'') (store (put_restaurant ''a1'' ?b ?e ?db))
      = map (\<lambda>d. map_of d ''_id'') ?db"
    unfolding Let_def by blast
  with calls show ?thesis by simp
qed

text \<open>
  Claim C8. \<open>runServer\<close> connects to the store first. When the connection fails, it
  rejects with that error and has not called \<open>listen\<close>. When the connection succeeds,
  it calls \<open>listen\<close>; when the socket then reports an error, it disconnects from the
  store and rejects with that error. It resolves only in the callback of \<open>listen\<close>, that
  is, once the socket accepts connections.
\<close>

theorem runServer_connects_then_listens:
  "(let r = runServer cfg arg0 arg1 out srv;
        url = (case arg0 of Some u \<Rightarrow> u | None \<Rightarrow> DATABASE_URL cfg);
        port = (case arg1 of Some p \<Rightarrow> p | None \<Rightarrow> PORT cfg)
    in hd (steps r) = Connect url
     \<and> (\<forall>err. connect_error out = Some err \<longrightarrow>
          settled r = Rejected (StoreError err) \<and> steps r = [Connect url] \<and> server r = srv)
     \<and> (\<forall>err. connect_error out = None \<and> listen_error out = Some err \<longrightarrow>
          settled r = Rejected (SocketError err)
          \<and> steps r = [Connect url, Listen port, Disconnect])
     \<and> (connect_error out = None \<and> listen_error out = None \<longrightarrow>
          settled r = Resolved () \<and> steps r = [Connect url, Listen port, Listening port])
     \<and> (settled r = Resolved () \<longrightarrow>
          before (Connect url) (Listen port) (steps r) \<and> last (steps r) = Listening port))"
  by (cases "connect_error out"; cases "listen_error out")
     (simp_all add: runServer_def Let_def)

text \<open>
  Claim C8, at a concrete start: the port is in use.
\<close>

theorem runServer_connects_then_listens_witness:
  "steps (runServer \<lparr>DATABASE_URL = ''mongodb://localhost/restaurants-app'', PORT = 8080\<rparr>
       None None
       \<lparr>connect_error = None, listen_error = Some ''EADDRINUSE'', disconnect_error = None,
        close_error = None\<rparr> None)
     = [Connect ''mongodb://localhost/restaurants-app'', Listen 8080, Disconnect]
   \<and> settled (runServer \<lparr>DATABASE_URL = ''mongodb://localhost/restaurants-app'', PORT = 8080\<rparr>
       None None
       \<lparr>connect_error = None, listen_error = Some ''EADDRINUSE'', disconnect_error = None,
        close_error = None\<rparr> None)
     = Rejected (SocketError ''EADDRINUSE'')"
  using runServer_connects_then_listens
    [of "\<lparr>DATABASE_URL = ''mongodb://localhost/restaurants-app'', PORT = 8080\<rparr>" None None
        "\<lparr>connect_error = None, listen_error = Some ''EADDRINUSE'', disconnect_error = None,
          close_error = None\<rparr>" None]
  unfolding Let_def by simp

text \<open>
  Claim C9, as stated, says that \<open>closeServer\<close> disconnects from the store only after,
  or together with, closing the listening socket. In a stop where nothing fails, the
  disconnect is begun and finished before \<open>close\<close> is called.
\<close>

theorem closeServer_disconnect_finished_before_close:
  "steps (closeServer
       \<lparr>connect_error = None, listen_error = None, disconnect_error = None, close_error = None\<rparr>
       (Some 8080))
     = [Disconnect, Disconnected, ConsoleLog ''Closing server'', Close, Closed]
   \<and> \<not> before Close Disconnect (steps (closeServer
       \<lparr>connect_error = None, listen_error = None, disconnect_error = None, close_error = None\<rparr>
       (Some 8080)))"
  by (simp add: closeServer_def)

text \<open>
  Claim C9, amended. \<open>closeServer\<close> disconnects from the store first, and calls \<open>close\<close>
  on the listening socket only after the disconnect has finished; the promise it returns
  resolves only after both the disconnect and the close have finished.
\<close>

theorem closeServer_disconnects_then_closes:
  "(let r = closeServer out srv
    in hd (steps r) = Disconnect
     \<and> (Close \<in> set (steps r) \<longrightarrow> before Disconnected Close (steps r))
     \<and> (settled r = Resolved () \<longrightarrow>
          Disconnected \<in> set (steps r) \<and> Closed \<in> set (steps r) \<and> last (steps r) = Closed))"
  by (cases "disconnect_error out"; cases srv; cases "close_error out")
     (simp_all add: closeServer_def Let_def)

text \<open>
  Claim C9, amended, at a concrete stop: the server listens on port 8080 and nothing
  fails.
\<close>

theorem closeServer_disconnects_then_closes_witness:
  "before Disconnected Close (steps (closeServer
       \<lparr>connect_error = None, listen_error = None, disconnect_error = None, close_error = None\<rparr>
       (Some 8080)))
   \<and> last (steps (closeServer
       \<lparr>connect_error = None, listen_error = None, disconnect_error = None, close_error = None\<rparr>
       (Some 8080))) = Closed"
proof -
  let ?out = "\<lparr>connect_error = None, listen_error = None, disconnect_error = None,
               close_error = None\<rparr>"
  have h1: "Close \<in> set (steps (closeServer ?out (Some 8080)))"
    by (simp add: closeServer_def)
  have h2: "settled (closeServer ?out (Some 8080)) = Resolved ()"
    by (simp add: closeServer_def)
  from closeServer_disconnects_then_closes [of ?out "Some 8080"] h1 h2
  show ?thesis
    unfolding Let_def by blast
qed

text \<open>
  Claim C10. For every identifier that the store accepts (it does not reject the call)
  and that no stored document has, PUT with matching identifiers and DELETE both write
  204 with an empty body and nothing else, and leave the collection as it is; the
  responses are the ones written when a document with that identifier is stored.
\<close>

theorem missing_id_put_delete_204:
  assumes "fault e = None" and "\<forall>d \<in> set db. \<not> has_id pid d"
  shows "(ids_match pid (get_prop b ''id'') \<longrightarrow>
            responses (trace (put_restaurant pid b e db)) = [(204, Empty)]
          \<and> store (put_restaurant pid b e db) = db
          \<and> responses (trace (put_restaurant pid b e db))
              = responses (trace (put_restaurant pid b e (((''_id'', JStr pid) # doc) # db))))
       \<and> responses (trace (delete_restaurant pid e db)) = [(204, Empty)]
       \<and> store (delete_restaurant pid e db) = db
       \<and> responses (trace (delete_restaurant pid e db))
           = responses (trace (delete_restaurant pid e (((''_id'', JStr pid) # doc) # db)))"
proof -
  have upd: "update_by_id pid u db = db" for u
    using assms(2) by (induction db) auto
  have rem: "remove_by_id pid db = db"
    using assms(2) by (induction db) auto
  show ?thesis
    using assms(1)
    by (simp add: put_restaurant_def id_check_def findByIdAndUpdate_def then_catch_def
          delete_restaurant_def findByIdAndRemove_def upd rem Let_def)
qed

text \<open>
  Claim C10, at a concrete request: the collection holds \<open>a1\<close>, the requests name \<open>zz\<close>.
\<close>

theorem missing_id_put_delete_204_witness:
  "responses (trace (put_restaurant ''zz'' (BodyObj [(''id'', JStr ''zz''), (''name'', JStr ''Test2'')])
       \<lparr>fault = None, new_id = []\<rparr> [[(''_id'', JStr ''a1''), (''name'', JStr ''Test'')]]))
     = [(204, Empty)]
   \<and> responses (trace (delete_restaurant ''zz''
       \<lparr>fault = None, new_id = []\<rparr> [[(''_id'', JStr ''a1''), (''name'', JStr ''Test'')]]))
     = [(204, Empty)]"
proof -
  let ?b = "BodyObj [(''id'', JStr ''zz''), (''name'', JStr ''Test2'')]"
  let ?e = "\<lparr>fault = None, new_id = []\<rparr>"
  let ?db = "[[(''_id'', JStr ''a1''), (''name'', JStr ''Test'')]]"
  have h1: "fault ?e = None" by simp
  have h2: "\<forall>d \<in> set ?db. \<not> has_id ''zz'' d" by (simp add: has_id_def)
  have h3: "ids_match ''zz'' (get_prop ?b ''id'')" by (simp add: ids_match_def)
  from missing_id_put_delete_204 [OF h1 h2, of ?b] h3
  show ?thesis by blast
qed

end
